theory Spec2Isabelle
  imports Main "HOL-Library.Sublist"
begin

section \<open>The MEU logistics chat front-end (\<^verbatim>\<open>app.py\<close>)\<close>

text \<open>
  The program reads a data file once, interpolates it into a fixed prompt, and on every
  call of \<^verbatim>\<open>chat(message, history)\<close> builds a role-tagged message list, sends it to a
  chat-completion provider and returns the text of the first choice.

  Python strings are modelled as \<^typ>\<open>string\<close>; nothing in the program looks inside a
  character, so only concatenation and equality of strings matter. The provider client
  and the chat widget (\<^verbatim>\<open>OpenAI()\<close>, \<^verbatim>\<open>gr.ChatInterface(...).launch()\<close>) are libraries
  outside the program: the provider is a parameter of the model, the widget is the caller.
\<close>

subsection \<open>Data\<close>

text \<open>A turn is the pair \<^verbatim>\<open>(user_msg, assistant_msg)\<close> the loop of \<^verbatim>\<open>chat\<close> unpacks.\<close>

type_synonym turn = "string \<times> string"

text \<open>A request message is the dictionary \<^verbatim>\<open>{"role": ..., "content": ...}\<close>.\<close>

record message =
  role :: string
  content :: string

text \<open>
  The provider's answer, as far as \<^verbatim>\<open>response.choices[0].message.content\<close> reads it.
  The content of a completion message is optional in the client library
  (\<^verbatim>\<open>None\<close> is \<^term>\<open>None\<close>).
\<close>

datatype chat_completion_message = ChatCompletionMessage (content_of: "string option")

datatype choice = Choice (message_of: chat_completion_message)

datatype chat_completion = ChatCompletion (choices: "choice list")

text \<open>
  What a call can raise: the index fault of \<^verbatim>\<open>choices[0]\<close>, whatever the provider
  call raises (named by its exception class), and the failure to open the data file.
\<close>

datatype py_error = IndexError | APIError string | FileNotFoundError

text \<open>
  \<^verbatim>\<open>client.chat.completions.create(model=..., messages=...)\<close>: the provider is outside
  the program, so it is a parameter: any function from the model identifier and the
  messages to an exception or a completion.
\<close>

type_synonym provider = "string \<Rightarrow> message list \<Rightarrow> py_error + chat_completion"

subsection \<open>The system prompt (lines 13 to 20)\<close>

definition newline :: char where
  "newline = CHR 0x0A"

text \<open>The f-string assigned to \<^verbatim>\<open>SYSTEM_PROMPT\<close>, as a function of \<^verbatim>\<open>DATA\<close>.\<close>

definition prompt_template :: "string \<Rightarrow> string" where
  "prompt_template data =
     ''You are a logistics analyst for Marine Expeditionary Unit (MEU) operations.'' @ [newline]
     @ [newline]
     @ ''Use the data below to answer questions. Always reference specific numbers with units.'' @ [newline]
     @ [newline]
     @ ''--- MEU LOGISTICS DATA ---'' @ [newline]
     @ data @ [newline]
     @ ''--- END DATA ---'' @ [newline]"

subsection \<open>\<^verbatim>\<open>chat\<close> on values (lines 22 to 33)\<close>

text \<open>\<^verbatim>\<open>xs.append(x)\<close>.\<close>

definition list_append :: "'a list \<Rightarrow> 'a \<Rightarrow> 'a list" where
  "list_append xs x = xs @ [x]"

text \<open>The \<^verbatim>\<open>for\<close> loop of lines 24 to 26, with \<^verbatim>\<open>messages\<close> as the accumulator.\<close>

fun for_turns :: "message list \<Rightarrow> turn list \<Rightarrow> message list" where
  "for_turns messages [] = messages"
| "for_turns messages ((user_msg, assistant_msg) # history) =
     for_turns
       (list_append
         (list_append messages \<lparr>role = ''user'', content = user_msg\<rparr>)
         \<lparr>role = ''assistant'', content = assistant_msg\<rparr>)
       history"

text \<open>Lines 23 to 27: the message list that \<^verbatim>\<open>chat\<close> builds.\<close>

definition chat_messages :: "string \<Rightarrow> string \<Rightarrow> turn list \<Rightarrow> message list" where
  "chat_messages system_prompt msg history =
     (let messages = [\<lparr>role = ''system'', content = system_prompt\<rparr>];
          messages = for_turns messages history;
          messages = list_append messages \<lparr>role = ''user'', content = msg\<rparr>
      in messages)"

text \<open>Line 33: \<^verbatim>\<open>response.choices[0].message.content\<close>.\<close>

definition first_choice_content :: "chat_completion \<Rightarrow> py_error + string option" where
  "first_choice_content response =
     (case choices response of
        [] \<Rightarrow> Inl IndexError
      | c # _ \<Rightarrow> Inr (content_of (message_of c)))"

text \<open>
  The whole function. The global \<^verbatim>\<open>SYSTEM_PROMPT\<close> it reads is the parameter
  \<open>system_prompt\<close>; an exception of the provider call is not caught.
\<close>

definition chat :: "provider \<Rightarrow> string \<Rightarrow> string \<Rightarrow> turn list \<Rightarrow> py_error + string option" where
  "chat create system_prompt msg history =
     (let messages = chat_messages system_prompt msg history
      in case create ''gpt-4o'' messages of
           Inl e \<Rightarrow> Inl e
         | Inr response \<Rightarrow> first_choice_content response)"

subsection \<open>\<^verbatim>\<open>chat\<close> on a store of list objects\<close>

text \<open>
  Python lists are objects: \<^verbatim>\<open>history\<close> is a reference to a list that the caller
  owns, \<^verbatim>\<open>messages\<close> a reference to a list that \<^verbatim>\<open>chat\<close> creates, and
  \<^verbatim>\<open>append\<close> changes a list in place. The store maps an address to the list that
  lives there; addresses below \<open>next_free\<close> are in use. An element of a list is a turn
  (a pair of strings) or a message dictionary.
\<close>

datatype item = Turn string string | Msg message

type_synonym addr = nat

text \<open>
  The module's globals \<^verbatim>\<open>DATA\<close> and \<^verbatim>\<open>SYSTEM_PROMPT\<close>, the store, and the requests
  that went to the provider (the one effect of \<^verbatim>\<open>chat\<close> outside the process).
\<close>

record state =
  DATA :: string
  SYSTEM_PROMPT :: string
  heap :: "addr \<Rightarrow> item list"
  next_free :: addr
  requests :: "(string \<times> item list) list"

text \<open>The provider, given the list as it stands when the call is made.\<close>

type_synonym store_provider = "string \<Rightarrow> item list \<Rightarrow> py_error + chat_completion"

text \<open>
  Lines 10 to 20, run once when the module is loaded: \<^verbatim>\<open>open\<close> raises when the file is
  missing (\<^term>\<open>None\<close>), otherwise \<^verbatim>\<open>DATA\<close> is its text and \<^verbatim>\<open>SYSTEM_PROMPT\<close> the
  f-string over it. No list exists yet and no request has been sent.
\<close>

definition startup :: "string option \<Rightarrow> py_error + state" where
  "startup file =
     (case file of
        None \<Rightarrow> Inl FileNotFoundError
      | Some dataset \<Rightarrow>
          Inr \<lparr>DATA = dataset, SYSTEM_PROMPT = prompt_template dataset,
               heap = (\<lambda>_. []), next_free = 0, requests = []\<rparr>)"

text \<open>A list display \<^verbatim>\<open>[...]\<close> creates a new list object at an unused address.\<close>

definition new_list :: "item list \<Rightarrow> state \<Rightarrow> addr \<times> state" where
  "new_list xs s =
     (next_free s, s\<lparr>heap := (heap s)(next_free s := xs), next_free := Suc (next_free s)\<rparr>)"

text \<open>\<^verbatim>\<open>a.append(x)\<close> on the list object at address \<open>a\<close>.\<close>

definition append_at :: "addr \<Rightarrow> item \<Rightarrow> state \<Rightarrow> state" where
  "append_at a x s = s\<lparr>heap := (heap s)(a := list_append (heap s a) x)\<rparr>"

text \<open>
  The target list \<^verbatim>\<open>user_msg, assistant_msg\<close> of the loop unpacks an element. A turn
  gives its two texts; iterating a dictionary gives its keys, so a message dictionary
  unpacks to the two key names.
\<close>

fun unpack :: "item \<Rightarrow> string \<times> string" where
  "unpack (Turn user_msg assistant_msg) = (user_msg, assistant_msg)"
| "unpack (Msg m) = (''role'', ''content'')"

text \<open>
  The loop of lines 24 to 26 as Python runs it: the list iterator keeps an index \<open>i\<close>
  and looks at the list object again in every round, so the loop sees what its own body
  appends. Not returning is \<^term>\<open>None\<close>.
\<close>

partial_function (option) for_loop :: "addr \<Rightarrow> addr \<Rightarrow> nat \<Rightarrow> state \<Rightarrow> state option" where
  "for_loop history messages i s =
     (if i < length (heap s history) then
        (case unpack (heap s history ! i) of
           (user_msg, assistant_msg) \<Rightarrow>
             for_loop history messages (Suc i)
               (append_at messages (Msg \<lparr>role = ''assistant'', content = assistant_msg\<rparr>)
                 (append_at messages (Msg \<lparr>role = ''user'', content = user_msg\<rparr>) s)))
      else Some s)"

text \<open>
  \<^verbatim>\<open>chat(message, history)\<close> on the store: \<open>history\<close> is the address of the caller's
  list. The result is the returned value or the exception, with the state after the call.
\<close>

definition chat_st ::
  "store_provider \<Rightarrow> string \<Rightarrow> addr \<Rightarrow> state \<Rightarrow> ((py_error + string option) \<times> state) option" where
  "chat_st create msg history s =
     (let (messages, s1) = new_list [Msg \<lparr>role = ''system'', content = SYSTEM_PROMPT s\<rparr>] s
      in case for_loop history messages 0 s1 of
           None \<Rightarrow> None
         | Some s2 \<Rightarrow>
             let s3 = append_at messages (Msg \<lparr>role = ''user'', content = msg\<rparr>) s2;
                 sent = heap s3 messages;
                 s4 = s3\<lparr>requests := list_append (requests s3) (''gpt-4o'', sent)\<rparr>
             in Some (case create ''gpt-4o'' sent of
                        Inl e \<Rightarrow> Inl e
                      | Inr response \<Rightarrow> first_choice_content response,
                      s4))"

text \<open>
  The states of a running process: the state after startup on a data file with the given
  text, the state after a call of \<^verbatim>\<open>chat\<close> on an existing list (with any provider
  behaviour), and the state after the chat surface, which owns the conversation
  histories, has created or changed lists. The surface is outside the program; it does
  not assign the module's globals.
\<close>

inductive reachable :: "string \<Rightarrow> state \<Rightarrow> bool" for dataset :: string where
  at_startup: "startup (Some dataset) = Inr s \<Longrightarrow> reachable dataset s"
| after_chat: "reachable dataset s \<Longrightarrow> history < next_free s \<Longrightarrow>
     chat_st create msg history s = Some (r, s') \<Longrightarrow> reachable dataset s'"
| after_surface: "reachable dataset s \<Longrightarrow> next_free s \<le> n \<Longrightarrow>
     reachable dataset (s\<lparr>heap := h, next_free := n\<rparr>)"

subsection \<open>Auxiliary notions for the statements\<close>

text \<open>The two messages that a turn contributes.\<close>

definition turn_messages :: "turn \<Rightarrow> message list" where
  "turn_messages t = [\<lparr>role = ''user'', content = fst t\<rparr>, \<lparr>role = ''assistant'', content = snd t\<rparr>]"

text \<open>The same on the store: what one element of the iterated list makes the loop append.\<close>

definition item_messages :: "item \<Rightarrow> item list" where
  "item_messages x = map Msg (turn_messages (unpack x))"

text \<open>A history list object whose elements are the turns \<open>ts\<close>.\<close>

definition turn_items :: "turn list \<Rightarrow> item list" where
  "turn_items ts = map (\<lambda>(user_msg, assistant_msg). Turn user_msg assistant_msg) ts"

text \<open>A provider on values that answers as a provider on the store does.\<close>

definition on_values :: "store_provider \<Rightarrow> provider" where
  "on_values create = (\<lambda>model messages. create model (map Msg messages))"

text \<open>
  The list that a call \<^verbatim>\<open>chat(msg, history)\<close> in state \<open>s\<close> hands to the provider: the
  messages of lines 23 to 27 over the pairs that the elements of the history list unpack to.
\<close>

definition sent_items :: "state \<Rightarrow> string \<Rightarrow> addr \<Rightarrow> item list" where
  "sent_items s msg history =
     map Msg (chat_messages (SYSTEM_PROMPT s) msg (map unpack (heap s history)))"

subsection \<open>Concrete states and providers\<close>

text \<open>
  A state after startup on the data \<^verbatim>\<open>Fuel: 500 gal/day\<close> in which the chat surface holds
  a history of one turn at address 0 and an empty history at address 1.
\<close>

definition example_state :: state where
  "example_state =
     \<lparr>DATA = ''Fuel: 500 gal/day'', SYSTEM_PROMPT = prompt_template ''Fuel: 500 gal/day'',
      heap = (\<lambda>_. [])(0 := [Turn ''u1'' ''a1''], 1 := []), next_free = 2, requests = []\<rparr>"

text \<open>
  A state that agrees with \<^const>\<open>example_state\<close> on the system prompt and holds the same
  turns, at another address, and differs in everything else.
\<close>

definition other_state :: state where
  "other_state =
     \<lparr>DATA = ''Water: 9 gal/day'', SYSTEM_PROMPT = prompt_template ''Fuel: 500 gal/day'',
      heap = (\<lambda>_. [])(3 := [Turn ''u1'' ''a1'']), next_free = 5,
      requests = [(''gpt-4o'', [])]\<rparr>"

text \<open>A provider that answers with no choice, and one whose call raises.\<close>

definition no_choices :: store_provider where
  "no_choices model messages = Inr (ChatCompletion [])"

definition rate_limited :: store_provider where
  "rate_limited model messages = Inl (APIError ''RateLimitError'')"

section \<open>The message list\<close>

subsection \<open>The loop appends the turns' messages in order\<close>

lemma for_turns_concat:
  "for_turns messages history = messages @ concat (map turn_messages history)"
  by (induction messages history rule: for_turns.induct)
     (simp_all add: list_append_def turn_messages_def)

lemma chat_messages_concat:
  "chat_messages system_prompt msg history =
     \<lparr>role = ''system'', content = system_prompt\<rparr> # concat (map turn_messages history)
       @ [\<lparr>role = ''user'', content = msg\<rparr>]"
  by (simp add: chat_messages_def for_turns_concat list_append_def)

lemma length_concat_turn_messages:
  "length (concat (map turn_messages history)) = 2 * length history"
  by (induction history) (simp_all add: turn_messages_def)

lemma roles_concat_turn_messages:
  "map role (concat (map turn_messages history)) =
     concat (replicate (length history) [''user'', ''assistant''])"
  by (induction history) (simp_all add: turn_messages_def)

lemma length_alternating_roles:
  "length (concat (replicate n [''user'', ''assistant''])) = 2 * n"
  by (induction n) simp_all

lemma nth_alternating_roles:
  "i < 2 * n \<Longrightarrow>
     concat (replicate n [''user'', ''assistant'']) ! i = (if even i then ''user'' else ''assistant'')"
proof (induction n arbitrary: i)
  case 0
  then show ?case by simp
next
  case (Suc n)
  show ?case
  proof (cases i)
    case 0
    then show ?thesis by simp
  next
    case i: (Suc j)
    show ?thesis
    proof (cases j)
      case 0
      with i show ?thesis by simp
    next
      case (Suc k)
      with i Suc.prems have "k < 2 * n" by simp
      from Suc.IH [OF this] i Suc show ?thesis by simp
    qed
  qed
qed

lemma nth_concat_turn_messages:
  "i < length history \<Longrightarrow>
     concat (map turn_messages history) ! (2 * i) = \<lparr>role = ''user'', content = fst (history ! i)\<rparr>
   \<and> concat (map turn_messages history) ! Suc (2 * i) =
       \<lparr>role = ''assistant'', content = snd (history ! i)\<rparr>"
proof (induction history arbitrary: i)
  case Nil
  then show ?case by simp
next
  case (Cons t history)
  show ?case
  proof (cases i)
    case 0
    then show ?thesis by (simp add: turn_messages_def)
  next
    case (Suc j)
    with Cons.prems have "j < length history" by simp
    from Cons.IH [OF this] Suc show ?thesis
      by (simp add: turn_messages_def)
  qed
qed

lemma nth_chat_messages_turn:
  assumes "i < length history"
  shows "chat_messages system_prompt msg history ! (2 * i + 1) =
           \<lparr>role = ''user'', content = fst (history ! i)\<rparr>"
    and "chat_messages system_prompt msg history ! (2 * i + 2) =
           \<lparr>role = ''assistant'', content = snd (history ! i)\<rparr>"
proof -
  let ?body = "concat (map turn_messages history)"
  from assms have "2 * i < length ?body" and "Suc (2 * i) < length ?body"
    by (simp_all add: length_concat_turn_messages)
  then have "chat_messages system_prompt msg history ! (2 * i + 1) = ?body ! (2 * i)"
    and "chat_messages system_prompt msg history ! (2 * i + 2) = ?body ! Suc (2 * i)"
    by (simp_all add: chat_messages_concat nth_append)
  with nth_concat_turn_messages [OF assms]
  show "chat_messages system_prompt msg history ! (2 * i + 1) =
           \<lparr>role = ''user'', content = fst (history ! i)\<rparr>"
    and "chat_messages system_prompt msg history ! (2 * i + 2) =
           \<lparr>role = ''assistant'', content = snd (history ! i)\<rparr>"
    by simp_all
qed

subsection \<open>Length and roles\<close>

text \<open>
  C1. For a history of \<open>N\<close> turns and any new message, the list built by \<^verbatim>\<open>chat\<close> has
  exactly \<open>2N + 2\<close> entries; its roles are \<open>system\<close>, then \<open>N\<close> times \<open>user, assistant\<close>,
  then \<open>user\<close>, so that from index 1 on the role at an odd index is \<open>user\<close> and at an even
  index \<open>assistant\<close>, and the last role is \<open>user\<close>; for the empty history the list is the
  system message followed by the user message.
\<close>

theorem chat_messages_length_roles:
  "length (chat_messages system_prompt msg history) = 2 * length history + 2
   \<and> map role (chat_messages system_prompt msg history) =
       ''system'' # concat (replicate (length history) [''user'', ''assistant'']) @ [''user'']
   \<and> (0 < i \<and> i < length (chat_messages system_prompt msg history) \<longrightarrow>
        role (chat_messages system_prompt msg history ! i) =
          (if odd i then ''user'' else ''assistant''))
   \<and> role (last (chat_messages system_prompt msg history)) = ''user''
   \<and> chat_messages system_prompt msg [] =
       [\<lparr>role = ''system'', content = system_prompt\<rparr>, \<lparr>role = ''user'', content = msg\<rparr>]"
proof -
  let ?ms = "chat_messages system_prompt msg history"
  let ?R = "concat (replicate (length history) [''user'', ''assistant''])"
  have len: "length ?ms = 2 * length history + 2"
    by (simp add: chat_messages_concat length_concat_turn_messages)
  have roles: "map role ?ms = ''system'' # ?R @ [''user'']"
    by (simp add: chat_messages_concat roles_concat_turn_messages)
  have alt: "role (?ms ! i) = (if odd i then ''user'' else ''assistant'')"
    if "0 < i" and "i < length ?ms"
  proof -
    from that obtain j where j: "i = Suc j" and le: "j \<le> 2 * length history"
      using len by (cases i) simp_all
    have "role (?ms ! i) = map role ?ms ! i"
      using that by simp
    also have "\<dots> = (?R @ [''user'']) ! j"
      by (simp add: roles j)
    also have "\<dots> = (if even j then ''user'' else ''assistant'')"
    proof (cases "j < 2 * length history")
      case True
      then show ?thesis
        by (simp add: nth_append length_alternating_roles nth_alternating_roles)
    next
      case False
      with le have "j = 2 * length history" by simp
      then show ?thesis
        by (simp add: nth_append length_alternating_roles)
    qed
    finally show ?thesis by (simp add: j)
  qed
  have lst: "role (last ?ms) = ''user''"
    by (simp add: chat_messages_concat)
  have emp: "chat_messages system_prompt msg [] =
       [\<lparr>role = ''system'', content = system_prompt\<rparr>, \<lparr>role = ''user'', content = msg\<rparr>]"
    by (simp add: chat_messages_concat)
  from len roles alt lst emp show ?thesis by blast
qed

theorem chat_messages_length_roles_witness:
  "length (chat_messages ''P'' ''q'' [(''u1'', ''a1''), (''u2'', ''a2'')]) = 6
   \<and> map role (chat_messages ''P'' ''q'' [(''u1'', ''a1''), (''u2'', ''a2'')]) =
       [''system'', ''user'', ''assistant'', ''user'', ''assistant'', ''user'']
   \<and> (0::nat) < 4 \<and> 4 < length (chat_messages ''P'' ''q'' [(''u1'', ''a1''), (''u2'', ''a2'')])
   \<and> role (chat_messages ''P'' ''q'' [(''u1'', ''a1''), (''u2'', ''a2'')] ! 4) = ''assistant''"
  using chat_messages_length_roles [of "''P''" "''q''" "[(''u1'', ''a1''), (''u2'', ''a2'')]" 4]
  by simp

subsection \<open>Order and content of the turns\<close>

text \<open>
  C2. The built list is the system message, then the messages of the turns in the order
  of the history, nothing left out, merged or moved, then the new user message: turn
  number \<open>i\<close> with texts \<open>(u, a)\<close> gives the user message with content \<open>u\<close> at index
  \<open>2i + 1\<close> and, right after it, the assistant message with content \<open>a\<close> at index
  \<open>2i + 2\<close>, the texts as they are.
\<close>

theorem chat_messages_turn_order:
  "chat_messages system_prompt msg history =
     \<lparr>role = ''system'', content = system_prompt\<rparr> # concat (map turn_messages history)
       @ [\<lparr>role = ''user'', content = msg\<rparr>]
   \<and> (i < length history \<longrightarrow>
        chat_messages system_prompt msg history ! (2 * i + 1) =
          \<lparr>role = ''user'', content = fst (history ! i)\<rparr>
      \<and> chat_messages system_prompt msg history ! (2 * i + 2) =
          \<lparr>role = ''assistant'', content = snd (history ! i)\<rparr>)"
  using chat_messages_concat nth_chat_messages_turn by blast

theorem chat_messages_turn_order_witness:
  "chat_messages ''P'' ''q'' [(''u1'', ''a1''), (''u2'', ''a2''), (''u1'', ''a1'')] =
     [\<lparr>role = ''system'', content = ''P''\<rparr>,
      \<lparr>role = ''user'', content = ''u1''\<rparr>, \<lparr>role = ''assistant'', content = ''a1''\<rparr>,
      \<lparr>role = ''user'', content = ''u2''\<rparr>, \<lparr>role = ''assistant'', content = ''a2''\<rparr>,
      \<lparr>role = ''user'', content = ''u1''\<rparr>, \<lparr>role = ''assistant'', content = ''a1''\<rparr>,
      \<lparr>role = ''user'', content = ''q''\<rparr>]
   \<and> (1::nat) < length [(''u1'', ''a1''), (''u2'', ''a2''), (''u1'', ''a1'')]
   \<and> chat_messages ''P'' ''q'' [(''u1'', ''a1''), (''u2'', ''a2''), (''u1'', ''a1'')] ! 3 =
       \<lparr>role = ''user'', content = ''u2''\<rparr>
   \<and> chat_messages ''P'' ''q'' [(''u1'', ''a1''), (''u2'', ''a2''), (''u1'', ''a1'')] ! 4 =
       \<lparr>role = ''assistant'', content = ''a2''\<rparr>"
  using chat_messages_turn_order
    [of "''P''" "''q''" "[(''u1'', ''a1''), (''u2'', ''a2''), (''u1'', ''a1'')]" 1]
  by (simp add: turn_messages_def)

text \<open>
  C10. Empty texts are not filtered: a turn whose user text or assistant text is the
  empty string still gives its user message and its assistant message, at indices
  \<open>2i + 1\<close> and \<open>2i + 2\<close>, and the length \<open>2N + 2\<close> and the role pattern are those of
  any other history.
\<close>

theorem empty_texts_not_filtered:
  assumes "i < length history"
    and "fst (history ! i) = '''' \<or> snd (history ! i) = ''''"
  shows "chat_messages system_prompt msg history ! (2 * i + 1) =
           \<lparr>role = ''user'', content = fst (history ! i)\<rparr>
       \<and> chat_messages system_prompt msg history ! (2 * i + 2) =
           \<lparr>role = ''assistant'', content = snd (history ! i)\<rparr>
       \<and> length (chat_messages system_prompt msg history) = 2 * length history + 2
       \<and> map role (chat_messages system_prompt msg history) =
           ''system'' # concat (replicate (length history) [''user'', ''assistant'']) @ [''user'']"
proof -
  have "length (chat_messages system_prompt msg history) = 2 * length history + 2"
    by (simp add: chat_messages_concat length_concat_turn_messages)
  moreover have "map role (chat_messages system_prompt msg history) =
      ''system'' # concat (replicate (length history) [''user'', ''assistant'']) @ [''user'']"
    by (simp add: chat_messages_concat roles_concat_turn_messages)
  ultimately show ?thesis
    using nth_chat_messages_turn [OF assms(1)] by simp
qed

theorem empty_texts_not_filtered_witness:
  "(1::nat) < length [(''u'', ''''), ('''', ''''), ('''', ''a'')]
   \<and> (fst ([(''u'', ''''), ('''', ''''), ('''', ''a'')] ! 1) = '''' \<or>
      snd ([(''u'', ''''), ('''', ''''), ('''', ''a'')] ! 1) = '''')
   \<and> chat_messages ''P'' '''' [(''u'', ''''), ('''', ''''), ('''', ''a'')] ! 3 =
       \<lparr>role = ''user'', content = ''''\<rparr>
   \<and> chat_messages ''P'' '''' [(''u'', ''''), ('''', ''''), ('''', ''a'')] ! 4 =
       \<lparr>role = ''assistant'', content = ''''\<rparr>
   \<and> length (chat_messages ''P'' '''' [(''u'', ''''), ('''', ''''), ('''', ''a'')]) = 8
   \<and> map role (chat_messages ''P'' '''' [(''u'', ''''), ('''', ''''), ('''', ''a'')]) =
       [''system'', ''user'', ''assistant'', ''user'', ''assistant'', ''user'', ''assistant'', ''user'']"
  using empty_texts_not_filtered
    [of 1 "[(''u'', ''''), ('''', ''''), ('''', ''a'')]" "''P''" "''''"]
  by simp

section \<open>The system prompt\<close>

text \<open>
  C3. The prompt built from a dataset \<open>D\<close> contains \<open>D\<close> as a contiguous part; it is the
  same fixed text before and after \<open>D\<close> whatever \<open>D\<close> is, so that the same \<open>D\<close> gives
  the same prompt; and for the empty dataset it is the template text alone, which is not
  empty.
\<close>

theorem prompt_template_contains_data:
  "sublist D (prompt_template D)
   \<and> (\<exists>before after. \<forall>D'. prompt_template D' = before @ D' @ after)
   \<and> prompt_template '''' =
       ''You are a logistics analyst for Marine Expeditionary Unit (MEU) operations.''
       @ [newline, newline]
       @ ''Use the data below to answer questions. Always reference specific numbers with units.''
       @ [newline, newline]
       @ ''--- MEU LOGISTICS DATA ---'' @ [newline, newline] @ ''--- END DATA ---'' @ [newline]
   \<and> prompt_template '''' \<noteq> ''''"
proof -
  let ?before =
    "''You are a logistics analyst for Marine Expeditionary Unit (MEU) operations.''
       @ [newline, newline]
       @ ''Use the data below to answer questions. Always reference specific numbers with units.''
       @ [newline, newline]
       @ ''--- MEU LOGISTICS DATA ---'' @ [newline]"
  let ?after = "[newline] @ ''--- END DATA ---'' @ [newline]"
  have split: "prompt_template D' = ?before @ D' @ ?after" for D'
    by (simp add: prompt_template_def)
  then have "sublist D (prompt_template D)"
    unfolding sublist_def by blast
  moreover from split have "\<exists>before after. \<forall>D'. prompt_template D' = before @ D' @ after"
    by blast
  ultimately show ?thesis
    by (simp add: prompt_template_def)
qed

section \<open>The completion step\<close>

lemma chat_error_cases:
  "chat create system_prompt msg history = Inl e \<Longrightarrow>
     create ''gpt-4o'' (chat_messages system_prompt msg history) = Inl e
   \<or> (e = IndexError \<and>
       (\<exists>response. create ''gpt-4o'' (chat_messages system_prompt msg history) = Inr response
          \<and> choices response = []))"
  by (auto simp: chat_def first_choice_content_def split: sum.splits list.splits)

text \<open>
  C4. The completion step passes the first choice's text through: when the provider
  answers the built messages with a response whose first choice has message content
  \<open>S\<close>, \<^verbatim>\<open>chat\<close> returns exactly \<open>S\<close>. (\<open>S\<close> is the content as the response has it, a
  string or \<^verbatim>\<open>None\<close>.)
\<close>

theorem chat_returns_first_choice_content:
  assumes "create ''gpt-4o'' (chat_messages system_prompt msg history) = Inr response"
    and "choices response = Choice (ChatCompletionMessage S) # rest"
  shows "chat create system_prompt msg history = Inr S"
  using assms by (simp add: chat_def first_choice_content_def)

theorem chat_returns_first_choice_content_witness:
  "(\<lambda>model messages. Inr (ChatCompletion [Choice (ChatCompletionMessage (Some ''500 gallons per day''))]))
      ''gpt-4o'' (chat_messages (prompt_template ''Fuel: 500 gal/day'') ''What is the fuel rate?'' [])
     = (Inr (ChatCompletion [Choice (ChatCompletionMessage (Some ''500 gallons per day''))])
          :: py_error + chat_completion)
   \<and> choices (ChatCompletion [Choice (ChatCompletionMessage (Some ''500 gallons per day''))]) =
       Choice (ChatCompletionMessage (Some ''500 gallons per day'')) # []
   \<and> chat (\<lambda>model messages. Inr (ChatCompletion [Choice (ChatCompletionMessage (Some ''500 gallons per day''))]))
       (prompt_template ''Fuel: 500 gal/day'') ''What is the fuel rate?'' [] =
       Inr (Some ''500 gallons per day'')"
  using chat_returns_first_choice_content
    [of "\<lambda>model messages. Inr (ChatCompletion [Choice (ChatCompletionMessage (Some ''500 gallons per day''))])"
        "prompt_template ''Fuel: 500 gal/day''" "''What is the fuel rate?''" "[]"
        "ChatCompletion [Choice (ChatCompletionMessage (Some ''500 gallons per day''))]"
        "Some ''500 gallons per day''" "[]"]
  by simp

section \<open>\<^verbatim>\<open>chat\<close> on the store\<close>

subsection \<open>The loop returns when the two lists are different objects\<close>

lemma append_at_twice:
  "append_at a y (append_at a x s) = s\<lparr>heap := (heap s)(a := heap s a @ [x, y])\<rparr>"
  by (simp add: append_at_def list_append_def)

text \<open>
  From index \<open>i\<close> on, the loop appends the messages of the remaining elements of the
  history list to the messages list and changes nothing else. The measure is the number
  of elements left, which the body does not change because it writes another object.
\<close>

lemma for_loop_Some:
  "history \<noteq> messages \<Longrightarrow>
   for_loop history messages i s =
     Some (s\<lparr>heap := (heap s)(messages :=
       heap s messages @ concat (map item_messages (drop i (heap s history))))\<rparr>)"
proof (induction "length (heap s history) - i" arbitrary: i s)
  case 0
  then show ?case
    by (subst for_loop.simps) simp
next
  case (Suc k)
  let ?x = "heap s history ! i"
  let ?s' = "s\<lparr>heap := (heap s)(messages := heap s messages @ item_messages ?x)\<rparr>"
  from Suc.hyps(2) have lt: "i < length (heap s history)" by simp
  have same: "heap ?s' history = heap s history"
    using Suc.prems by simp
  have "k = length (heap ?s' history) - Suc i"
    using Suc.hyps(2) same by simp
  from Suc.hyps(1) [OF this Suc.prems]
  have IH: "for_loop history messages (Suc i) ?s' =
      Some (s\<lparr>heap := (heap s)(messages :=
        heap s messages @ item_messages ?x @ concat (map item_messages (drop (Suc i) (heap s history))))\<rparr>)"
    using Suc.prems by simp
  have step: "for_loop history messages i s = for_loop history messages (Suc i) ?s'"
    using lt
    by (subst for_loop.simps)
       (simp add: append_at_twice item_messages_def turn_messages_def split: prod.splits)
  have "drop i (heap s history) = ?x # drop (Suc i) (heap s history)"
    using lt by (simp add: Cons_nth_drop_Suc)
  with step IH show ?case by simp
qed

text \<open>
  The hypothesis is needed: a loop that appended to the list it iterates would find two
  more elements in every round and never return.
\<close>

lemma for_loop_aliased_never_returns:
  assumes lt: "i < length (heap s a)"
  shows "for_loop a a i s = None"
proof (cases "for_loop a a i s")
  case None
  then show ?thesis .
next
  case (Some s')
  have "a = a \<longrightarrow> i < length (heap s a) \<longrightarrow> False"
  proof (rule for_loop.raw_induct
      [where P = "\<lambda>history messages i s y.
         history = messages \<longrightarrow> i < length (heap s history) \<longrightarrow> False", OF _ Some])
    fix f history messages i s y
    assume IH: "\<And>history messages i s y. f history messages i s = Some y \<Longrightarrow>
        history = messages \<longrightarrow> i < length (heap s history) \<longrightarrow> False"
      and eq: "(if i < length (heap s history)
        then case unpack (heap s history ! i) of
           (user_msg, assistant_msg) \<Rightarrow>
             f history messages (Suc i)
              (append_at messages (Msg \<lparr>role = ''assistant'', content = assistant_msg\<rparr>)
                (append_at messages (Msg \<lparr>role = ''user'', content = user_msg\<rparr>) s))
        else Some s) = Some y"
    show "history = messages \<longrightarrow> i < length (heap s history) \<longrightarrow> False"
    proof (intro impI)
      assume same: "history = messages" and lt: "i < length (heap s history)"
      obtain u v where uv: "unpack (heap s history ! i) = (u, v)"
        by (cases "unpack (heap s history ! i)")
      let ?s' = "append_at messages (Msg \<lparr>role = ''assistant'', content = v\<rparr>)
                  (append_at messages (Msg \<lparr>role = ''user'', content = u\<rparr>) s)"
      from eq lt uv have "f history messages (Suc i) ?s' = Some y" by simp
      from IH [OF this] same have "\<not> Suc i < length (heap ?s' history)" by blast
      moreover have "length (heap ?s' history) = length (heap s history) + 2"
        using same by (simp add: append_at_def list_append_def)
      ultimately show False using lt by simp
    qed
  qed
  with lt show ?thesis by blast
qed

subsection \<open>What a call does to the state\<close>

lemma concat_item_messages:
  "concat (map item_messages xs) = map Msg (concat (map turn_messages (map unpack xs)))"
  by (induction xs) (simp_all add: item_messages_def)

text \<open>
  A call on an existing list returns. Its result is that of \<^const>\<open>chat\<close> on the pairs in
  the list; the state afterwards has one more list object, the messages that were sent,
  and one more request.
\<close>

lemma chat_st_eq:
  assumes "history < next_free s"
  shows "chat_st create msg history s =
     Some (chat (on_values create) (SYSTEM_PROMPT s) msg (map unpack (heap s history)),
           s\<lparr>heap := (heap s)(next_free s := sent_items s msg history),
              next_free := Suc (next_free s),
              requests := requests s @ [(''gpt-4o'', sent_items s msg history)]\<rparr>)"
proof -
  from assms have ne: "history \<noteq> next_free s" by simp
  show ?thesis
    using ne
    by (simp add: chat_st_def new_list_def for_loop_Some append_at_def list_append_def
        sent_items_def chat_messages_concat concat_item_messages chat_def on_values_def Let_def)
qed

lemma unpack_turn_items: "map unpack (turn_items ts) = ts"
  by (induction ts) (simp_all add: turn_items_def split: prod.splits)

lemma sent_items_turn_items:
  "heap s history = turn_items ts \<Longrightarrow>
     sent_items s msg history = map Msg (chat_messages (SYSTEM_PROMPT s) msg ts)"
  by (simp add: sent_items_def unpack_turn_items)

lemma sent_items_system_first:
  "\<exists>rest. sent_items s msg history =
     Msg \<lparr>role = ''system'', content = SYSTEM_PROMPT s\<rparr> # rest"
  by (simp add: sent_items_def chat_messages_concat)

subsection \<open>Errors\<close>

text \<open>
  C5. When the provider answers with an empty list of choices, \<^verbatim>\<open>chat\<close> ends with the
  index fault of \<^verbatim>\<open>choices[0]\<close> as its outcome: the fault is not caught, turned into
  another error or followed by a second request (the call made exactly one request).
  The globals and every list that existed before the call are as they were.
\<close>

theorem chat_st_empty_choices:
  assumes "history < next_free s"
    and "create ''gpt-4o'' (sent_items s msg history) = Inr response"
    and "choices response = []"
  shows "\<exists>s'. chat_st create msg history s = Some (Inl IndexError, s')
           \<and> DATA s' = DATA s \<and> SYSTEM_PROMPT s' = SYSTEM_PROMPT s
           \<and> (a < next_free s \<longrightarrow> heap s' a = heap s a)
           \<and> requests s' = requests s @ [(''gpt-4o'', sent_items s msg history)]"
proof -
  have "chat (on_values create) (SYSTEM_PROMPT s) msg (map unpack (heap s history)) =
      Inl IndexError"
    using assms(2,3)
    by (simp add: chat_def on_values_def sent_items_def first_choice_content_def)
  with chat_st_eq [OF assms(1), of create msg] show ?thesis by simp
qed

theorem chat_st_empty_choices_witness:
  "(0::nat) < next_free example_state
   \<and> no_choices ''gpt-4o'' (sent_items example_state ''q'' 0) = Inr (ChatCompletion [])
   \<and> choices (ChatCompletion []) = []
   \<and> (\<exists>s'. chat_st no_choices ''q'' 0 example_state = Some (Inl IndexError, s')
         \<and> DATA s' = DATA example_state \<and> SYSTEM_PROMPT s' = SYSTEM_PROMPT example_state
         \<and> heap s' 1 = heap example_state 1
         \<and> requests s' = requests example_state @ [(''gpt-4o'', sent_items example_state ''q'' 0)])"
  using chat_st_empty_choices
    [where history = 0 and s = example_state and create = no_choices and msg = "''q''"
       and response = "ChatCompletion []" and a = 1]
  by (simp add: example_state_def no_choices_def)

text \<open>
  C7. Building the messages is total: for every system prompt (every state), every
  history list of turns, the empty one included, and every new message, the empty string
  included, the call gets as far as the request to the provider, with the built list.
  Nothing is validated or rejected on the way: if the call ends in an error \<open>e\<close>, then
  the provider call raised \<open>e\<close>, or the provider answered with no choice and \<open>e\<close> is the
  index fault.
\<close>

theorem message_building_total:
  assumes "history < next_free s"
    and "heap s history = turn_items ts"
  shows "\<exists>r s'. chat_st create msg history s = Some (r, s')
           \<and> requests s' =
               requests s @ [(''gpt-4o'', map Msg (chat_messages (SYSTEM_PROMPT s) msg ts))]
           \<and> (r = Inl e \<longrightarrow>
                create ''gpt-4o'' (map Msg (chat_messages (SYSTEM_PROMPT s) msg ts)) = Inl e
              \<or> (e = IndexError \<and>
                  (\<exists>response.
                     create ''gpt-4o'' (map Msg (chat_messages (SYSTEM_PROMPT s) msg ts)) =
                       Inr response \<and> choices response = [])))"
proof -
  let ?r = "chat (on_values create) (SYSTEM_PROMPT s) msg ts"
  have sent: "sent_items s msg history = map Msg (chat_messages (SYSTEM_PROMPT s) msg ts)"
    using assms(2) by (rule sent_items_turn_items)
  have "?r = Inl e \<longrightarrow>
          create ''gpt-4o'' (map Msg (chat_messages (SYSTEM_PROMPT s) msg ts)) = Inl e
        \<or> (e = IndexError \<and>
            (\<exists>response.
               create ''gpt-4o'' (map Msg (chat_messages (SYSTEM_PROMPT s) msg ts)) =
                 Inr response \<and> choices response = []))"
    using chat_error_cases [of "on_values create" "SYSTEM_PROMPT s" msg ts e]
    by (simp add: on_values_def)
  with chat_st_eq [OF assms(1), of create msg] sent assms(2) show ?thesis
    by (simp add: unpack_turn_items)
qed

theorem message_building_total_witness:
  "(1::nat) < next_free example_state
   \<and> heap example_state 1 = turn_items []
   \<and> (\<exists>r s'. chat_st rate_limited '''' 1 example_state = Some (r, s')
         \<and> requests s' =
             [(''gpt-4o'', [Msg \<lparr>role = ''system'', content = prompt_template ''Fuel: 500 gal/day''\<rparr>,
                            Msg \<lparr>role = ''user'', content = ''''\<rparr>])]
         \<and> r = Inl (APIError ''RateLimitError'')
         \<and> rate_limited ''gpt-4o''
              (map Msg (chat_messages (SYSTEM_PROMPT example_state) '''' [])) =
             Inl (APIError ''RateLimitError''))"
proof -
  have lt: "(1::nat) < next_free example_state"
    and h: "heap example_state 1 = turn_items []"
    by (simp_all add: example_state_def turn_items_def)
  from message_building_total [OF lt h, of rate_limited "''''" "APIError ''RateLimitError''"]
  obtain r s' where ret: "chat_st rate_limited '''' 1 example_state = Some (r, s')"
    and req: "requests s' = requests example_state
        @ [(''gpt-4o'', map Msg (chat_messages (SYSTEM_PROMPT example_state) '''' []))]"
    by blast
  have run: "chat_st rate_limited '''' 1 example_state =
      Some (Inl (APIError ''RateLimitError''), s')"
    using ret lt by (simp add: chat_st_eq chat_def on_values_def rate_limited_def)
  with ret have r: "r = Inl (APIError ''RateLimitError'')" by simp
  have req': "requests s' =
      [(''gpt-4o'', [Msg \<lparr>role = ''system'', content = prompt_template ''Fuel: 500 gal/day''\<rparr>,
                     Msg \<lparr>role = ''user'', content = ''''\<rparr>])]"
    using req by (simp add: example_state_def chat_messages_concat)
  have "rate_limited ''gpt-4o'' (map Msg (chat_messages (SYSTEM_PROMPT example_state) '''' [])) =
      Inl (APIError ''RateLimitError'')"
    by (simp add: rate_limited_def)
  with lt h ret r req' show ?thesis by blast
qed

subsection \<open>The frame of a call\<close>

text \<open>
  C8. The history is read only: after a call the history list, with every turn in it,
  is what it was before, and so is every other list that existed. The built messages are
  a new list object, different from the history; the globals are unchanged, so the
  call keeps nothing of the history.
\<close>

theorem chat_st_history_unchanged:
  assumes "history < next_free s"
  shows "\<exists>r s'. chat_st create msg history s = Some (r, s')
           \<and> heap s' history = heap s history
           \<and> (a < next_free s \<longrightarrow> heap s' a = heap s a)
           \<and> next_free s \<noteq> history
           \<and> heap s' (next_free s) = sent_items s msg history
           \<and> DATA s' = DATA s \<and> SYSTEM_PROMPT s' = SYSTEM_PROMPT s"
  using chat_st_eq [OF assms, of create msg] assms by simp

theorem chat_st_history_unchanged_witness:
  "(0::nat) < next_free example_state
   \<and> (\<exists>r s'. chat_st rate_limited ''q'' 0 example_state = Some (r, s')
         \<and> heap s' 0 = [Turn ''u1'' ''a1'']
         \<and> heap s' 1 = heap example_state 1
         \<and> heap s' 2 = [Msg \<lparr>role = ''system'', content = prompt_template ''Fuel: 500 gal/day''\<rparr>,
                         Msg \<lparr>role = ''user'', content = ''u1''\<rparr>,
                         Msg \<lparr>role = ''assistant'', content = ''a1''\<rparr>,
                         Msg \<lparr>role = ''user'', content = ''q''\<rparr>])"
  using chat_st_history_unchanged
    [where history = 0 and s = example_state and create = rate_limited and msg = "''q''" and a = 1]
  by (auto simp add: example_state_def sent_items_def chat_messages_concat turn_messages_def)

subsection \<open>Two runs\<close>

text \<open>
  C9. The messages depend on the system prompt, the history and the new message only:
  two calls with the same new message, in two states with the same system prompt, on
  history lists with the same elements, send the same request and build the same list,
  whatever else differs (the other lists, the addresses, the earlier requests, the data,
  the provider).
\<close>

theorem chat_st_messages_deterministic:
  assumes "history1 < next_free s1" and "history2 < next_free s2"
    and "SYSTEM_PROMPT s1 = SYSTEM_PROMPT s2"
    and "heap s1 history1 = heap s2 history2"
  shows "\<exists>r1 t1 r2 t2.
           chat_st create1 msg history1 s1 = Some (r1, t1)
         \<and> chat_st create2 msg history2 s2 = Some (r2, t2)
         \<and> last (requests t1) = last (requests t2)
         \<and> heap t1 (next_free s1) = heap t2 (next_free s2)"
proof -
  have "sent_items s1 msg history1 = sent_items s2 msg history2"
    using assms(3,4) by (simp add: sent_items_def)
  with chat_st_eq [OF assms(1), of create1 msg] chat_st_eq [OF assms(2), of create2 msg]
  show ?thesis by simp
qed

theorem chat_st_messages_deterministic_witness:
  "(0::nat) < next_free example_state \<and> (3::nat) < next_free other_state
   \<and> SYSTEM_PROMPT example_state = SYSTEM_PROMPT other_state
   \<and> heap example_state 0 = heap other_state 3
   \<and> DATA example_state \<noteq> DATA other_state
   \<and> requests example_state \<noteq> requests other_state
   \<and> (\<exists>r1 t1 r2 t2.
         chat_st no_choices ''q'' 0 example_state = Some (r1, t1)
       \<and> chat_st rate_limited ''q'' 3 other_state = Some (r2, t2)
       \<and> last (requests t1) = last (requests t2)
       \<and> heap t1 2 = heap t2 5)"
  using chat_st_messages_deterministic
    [where ?history1.0 = 0 and ?s1.0 = example_state and ?history2.0 = 3 and ?s2.0 = other_state
       and ?create1.0 = no_choices and ?create2.0 = rate_limited and msg = "''q''"]
  by (simp add: example_state_def other_state_def)

section \<open>The system prompt over the life of the process\<close>

text \<open>No step assigns the globals: they are what startup made them.\<close>

lemma reachable_globals:
  "reachable dataset s \<Longrightarrow> DATA s = dataset \<and> SYSTEM_PROMPT s = prompt_template dataset"
proof (induction rule: reachable.induct)
  case (at_startup s)
  then show ?case by (auto simp: startup_def)
next
  case (after_chat s history create msg r s')
  from after_chat.hyps(2) after_chat.hyps(3) have
    "s' = s\<lparr>heap := (heap s)(next_free s := sent_items s msg history),
            next_free := Suc (next_free s),
            requests := requests s @ [(''gpt-4o'', sent_items s msg history)]\<rparr>"
    by (simp add: chat_st_eq)
  with after_chat.IH show ?case by simp
next
  case (after_surface s n h)
  then show ?case by simp
qed

text \<open>
  C6. The system prompt is built once, at startup, and never written again: in every
  state the process reaches it is the prompt built from the data file, a call of
  \<^verbatim>\<open>chat\<close> with any message on any existing history leaves it so, and the first
  message of the request of that call is the system message with this same prompt.
\<close>

theorem system_prompt_immutable:
  assumes "reachable dataset s" and "history < next_free s"
  shows "SYSTEM_PROMPT s = prompt_template dataset
       \<and> (\<exists>r s' rest.
            chat_st create msg history s = Some (r, s')
          \<and> SYSTEM_PROMPT s' = prompt_template dataset
          \<and> last (requests s') =
              (''gpt-4o'', Msg \<lparr>role = ''system'', content = prompt_template dataset\<rparr> # rest))"
proof -
  from assms(1) have sp: "SYSTEM_PROMPT s = prompt_template dataset"
    by (simp add: reachable_globals)
  obtain rest where "sent_items s msg history =
      Msg \<lparr>role = ''system'', content = SYSTEM_PROMPT s\<rparr> # rest"
    using sent_items_system_first by blast
  with chat_st_eq [OF assms(2), of create msg] sp show ?thesis by simp
qed

theorem system_prompt_immutable_witness:
  "reachable ''Fuel: 500 gal/day'' example_state \<and> (0::nat) < next_free example_state
   \<and> SYSTEM_PROMPT example_state = prompt_template ''Fuel: 500 gal/day''
   \<and> (\<exists>r s' rest.
         chat_st no_choices ''q'' 0 example_state = Some (r, s')
       \<and> SYSTEM_PROMPT s' = prompt_template ''Fuel: 500 gal/day''
       \<and> last (requests s') =
           (''gpt-4o'', Msg \<lparr>role = ''system'', content = prompt_template ''Fuel: 500 gal/day''\<rparr> # rest))"
proof -
  let ?s0 = "\<lparr>DATA = ''Fuel: 500 gal/day'', SYSTEM_PROMPT = prompt_template ''Fuel: 500 gal/day'',
      heap = (\<lambda>_. []), next_free = 0, requests = []\<rparr>"
  have "reachable ''Fuel: 500 gal/day'' ?s0"
    by (rule at_startup) (simp add: startup_def)
  from after_surface [OF this, of 2 "(\<lambda>_. [])(0 := [Turn ''u1'' ''a1''], 1 := [])"]
  have r: "reachable ''Fuel: 500 gal/day'' example_state"
    by (simp add: example_state_def)
  have lt: "(0::nat) < next_free example_state"
    by (simp add: example_state_def)
  from system_prompt_immutable [OF r lt, of no_choices "''q''"] r lt show ?thesis
    by blast
qed

end
